theory Spec2Isabelle
  imports Complex_Main
begin

section \<open>Strings, files and errors of the browser runtime\<close>

text \<open>
  A JavaScript string is a sequence of UTF-16 code units; \<open>length\<close>, \<open>trim\<close> and
  \<open>===\<close> work on code units. String literals of the source that are plain ASCII are
  written \<open>asc ''...''\<close>; the others are spelled out as their code units.
\<close>

type_synonym jsstring = "nat list"

definition asc :: "string \<Rightarrow> jsstring" where
  "asc s = map of_char s"

text \<open>
  \<open>String.prototype.trim\<close>: strips WhiteSpace and LineTerminator code points
  (ECMA-262: TAB, VT, FF, SP, NBSP, ZWNBSP, the Unicode space separators, LF, CR, LS, PS)
  from both ends.
\<close>

definition isWhiteSpace :: "nat \<Rightarrow> bool" where
  "isWhiteSpace c \<longleftrightarrow>
     c = 0x9 \<or> c = 0xA \<or> c = 0xB \<or> c = 0xC \<or> c = 0xD \<or> c = 0x20 \<or> c = 0xA0 \<or>
     c = 0x1680 \<or> (0x2000 \<le> c \<and> c \<le> 0x200A) \<or> c = 0x2028 \<or> c = 0x2029 \<or>
     c = 0x202F \<or> c = 0x205F \<or> c = 0x3000 \<or> c = 0xFEFF"

definition trim :: "jsstring \<Rightarrow> jsstring" where
  "trim s = rev (dropWhile isWhiteSpace (rev (dropWhile isWhiteSpace s)))"

text \<open>
  Conversion to a \<open>USVString\<close> (Web IDL), which \<open>FormData.append\<close> applies to a
  string: every surrogate code unit that is not part of a pair, a lead in
  \<open>D800..DBFF\<close> followed by a trail in \<open>DC00..DFFF\<close>, is replaced by \<open>U+FFFD\<close>.
  \<open>isWellFormed\<close> is \<open>String.prototype.isWellFormed\<close>: no such code unit occurs.
\<close>

definition isLeadSurrogate :: "nat \<Rightarrow> bool" where
  "isLeadSurrogate c \<longleftrightarrow> 0xD800 \<le> c \<and> c \<le> 0xDBFF"

definition isTrailSurrogate :: "nat \<Rightarrow> bool" where
  "isTrailSurrogate c \<longleftrightarrow> 0xDC00 \<le> c \<and> c \<le> 0xDFFF"

fun toUSVString :: "jsstring \<Rightarrow> jsstring" where
  "toUSVString [] = []"
| "toUSVString [c] = (if isLeadSurrogate c \<or> isTrailSurrogate c then [0xFFFD] else [c])"
| "toUSVString (c # d # cs) =
     (if isLeadSurrogate c then
        (if isTrailSurrogate d then c # d # toUSVString cs
         else 0xFFFD # toUSVString (d # cs))
      else if isTrailSurrogate c then 0xFFFD # toUSVString (d # cs)
      else c # toUSVString (d # cs))"

fun isWellFormed :: "jsstring \<Rightarrow> bool" where
  "isWellFormed [] = True"
| "isWellFormed [c] = (\<not> isLeadSurrogate c \<and> \<not> isTrailSurrogate c)"
| "isWellFormed (c # d # cs) =
     (if isLeadSurrogate c then isTrailSurrogate d \<and> isWellFormed cs
      else \<not> isTrailSurrogate c \<and> isWellFormed (d # cs))"

text \<open>Decimal rendering of a non-negative integer, as a template literal renders it.\<close>

fun digits :: "nat \<Rightarrow> jsstring" where
  "digits n = (if n < 10 then [0x30 + n] else digits (n div 10) @ [0x30 + n mod 10])"

declare digits.simps [simp del]

text \<open>
  \<open>(size / 1024 / 1024).toFixed(1)\<close> for a file size. Dividing an integer below
  \<open>2^53\<close> by \<open>1024\<close> twice is exact in binary floating point, and \<open>toFixed(1)\<close> picks the
  integer \<open>n\<close> with \<open>n / 10\<close> nearest to the exact value (the larger one on a tie), so
  \<open>n = \<lfloor>10 * size / 2^20 + 1/2\<rfloor>\<close>.
\<close>

definition toFixed1_MB :: "nat \<Rightarrow> jsstring" where
  "toFixed1_MB sz =
     (let n = (20 * sz + 1048576) div 2097152
      in digits (n div 10) @ asc ''.'' @ digits (n mod 10))"

text \<open>A \<open>File\<close> of a file input: only its name and its size in bytes are read.\<close>

record js_file =
  file_name :: jsstring
  file_size :: nat

text \<open>
  An exception value: the \<open>name\<close> and \<open>message\<close> of an \<open>Error\<close> object.
  \<open>new Error(m)\<close> has the name \<open>Error\<close>. A \<open>TypeError\<close> is what the engine throws on a
  property access on \<open>null\<close> or \<open>undefined\<close>; its message is engine specific and stands
  here as the name of the expression that was \<open>null\<close>.
\<close>

record js_error =
  err_name :: jsstring
  err_message :: jsstring

definition Error :: "jsstring \<Rightarrow> js_error" where
  "Error m = \<lparr>err_name = asc ''Error'', err_message = m\<rparr>"

definition TypeError :: "jsstring \<Rightarrow> js_error" where
  "TypeError m = \<lparr>err_name = asc ''TypeError'', err_message = m\<rparr>"

section \<open>config.js\<close>

definition MODERATE :: jsstring where
  "MODERATE = asc ''/api/moderate''"

definition HEALTH :: jsstring where
  "HEALTH = asc ''/api/health''"

definition TIMEOUT :: nat where
  "TIMEOUT = 120000"

text \<open>
  The own entries of the object \<open>CONFIG.UI.LOADING_STEPS\<close>, as a map from its four keys
  to their caption lists. A property lookup \<open>LOADING_STEPS[mode]\<close> takes an own entry
  first and an inherited member next (\<open>inherited_member\<close> below); it is \<open>undefined\<close>
  when the key is neither.
\<close>

definition LOADING_STEPS :: "jsstring \<Rightarrow> jsstring list option" where
  "LOADING_STEPS mode =
     (if mode = asc ''text'' then Some
        [[0x52A0, 0x8F7D, 0x5206, 0x8BCD, 0x5668, 0x2E, 0x2E, 0x2E],
         [0x63D0, 0x53D6, 0x6587, 0x672C, 0x7279, 0x5F81, 0x2E, 0x2E, 0x2E],
         [0x8BED, 0x4E49, 0x5206, 0x6790, 0x2E, 0x2E, 0x2E],
         [0x751F, 0x6210, 0x8DE8, 0x6A21, 0x6001, 0x8868, 0x5F81, 0x2E, 0x2E, 0x2E]]
      else if mode = asc ''image'' then Some
        [[0x52A0, 0x8F7D, 0x56FE, 0x50CF, 0x2E, 0x2E, 0x2E],
         [0x4F, 0x43, 0x52, 0x6587, 0x672C, 0x63D0, 0x53D6, 0x2E, 0x2E, 0x2E],
         [0x43, 0x4C, 0x49, 0x50, 0x89C6, 0x89C9, 0x7F16, 0x7801, 0x2E, 0x2E, 0x2E],
         [0x8DE8, 0x6A21, 0x6001, 0x5BF9, 0x9F50, 0x2E, 0x2E, 0x2E]]
      else if mode = asc ''audio'' then Some
        [[0x52A0, 0x8F7D, 0x97F3, 0x9891, 0x2E, 0x2E, 0x2E],
         [0x57, 0x68, 0x69, 0x73, 0x70, 0x65, 0x72, 0x8F6C, 0x5F55, 0x2E, 0x2E, 0x2E],
         [0x6587, 0x672C, 0x8BED, 0x4E49, 0x5206, 0x6790, 0x2E, 0x2E, 0x2E],
         [0x65F6, 0x5E8F, 0x7279, 0x5F81, 0x63D0, 0x53D6, 0x2E, 0x2E, 0x2E]]
      else if mode = asc ''video'' then Some
        [[0x52A0, 0x8F7D, 0x89C6, 0x9891, 0x2E, 0x2E, 0x2E],
         [0x63D0, 0x53D6, 0x97F3, 0x9891, 0x8F68, 0x9053, 0x2E, 0x2E, 0x2E],
         [0x5173, 0x952E, 0x5E27, 0x91C7, 0x6837, 0x2E, 0x2E, 0x2E],
         [0x591A, 0x6A21, 0x6001, 0x878D, 0x5408, 0x2E, 0x2E, 0x2E]]
      else None)"

text \<open>
  \<open>CONFIG.UI.LOADING_STEPS\<close> is an object literal: a key that is not its own is looked
  up in \<open>Object.prototype\<close>, whose members (ECMA-262 with Annex B) are these. Such a
  lookup yields a function or an object and not \<open>undefined\<close>.
\<close>

definition inherited_member :: "jsstring \<Rightarrow> bool" where
  "inherited_member k \<longleftrightarrow>
     k \<in> set (map asc
       [''constructor'', ''hasOwnProperty'', ''isPrototypeOf'', ''propertyIsEnumerable'',
        ''toLocaleString'', ''toString'', ''valueOf'', ''__proto__'', ''__defineGetter__'',
        ''__defineSetter__'', ''__lookupGetter__'', ''__lookupSetter__''])"

record risk_level =
  threshold :: rat
  rl_class :: jsstring
  rl_text :: jsstring

definition SAFE :: risk_level where
  "SAFE = \<lparr>threshold = 0, rl_class = asc ''risk-safe'',
            rl_text = [0x2705, 0x20, 0x5185, 0x5BB9, 0x6B63, 0x5E38]\<rparr>"

definition WARNING :: risk_level where
  "WARNING = \<lparr>threshold = 6 / 10, rl_class = asc ''risk-warning'',
               rl_text = [0x26A0, 0xFE0F, 0x20, 0x4E2D, 0x5EA6, 0x98CE, 0x9669]\<rparr>"

definition DANGER :: risk_level where
  "DANGER = \<lparr>threshold = 8 / 10, rl_class = asc ''risk-danger'',
              rl_text = [0xD83D, 0xDEA8, 0x20, 0x9AD8, 0x98CE, 0x9669, 0x8FDD, 0x89C4]\<rparr>"

definition MAX_SIZE :: nat where
  "MAX_SIZE = 50 * 1024 * 1024"

section \<open>api.js\<close>

text \<open>
  The payload of the server, typed as the data model has it: a moderation result with a
  numeric \<open>confidence\<close> and a boolean \<open>violation\<close>; optional members are options.
  Numbers are rationals: every finite double is one, and the comparisons of the code
  compare values.
\<close>

record frame =
  timestamp :: rat
  frame_violation :: bool
  frame_type :: jsstring
  frame_confidence :: rat

record moderation_result =
  modality :: "jsstring option"
  confidence :: rat
  result_type :: "jsstring option"
  violation :: bool
  alignment_score :: "rat option"
  frames :: "frame list"

text \<open>The JSON body of \<open>POST /api/moderate\<close>: \<open>{success, result | error}\<close>.\<close>

record api_body =
  success :: bool
  result :: "moderation_result option"
  error :: "jsstring option"

text \<open>
  A \<open>Response\<close>: its status, and what \<open>response.json()\<close> settles to (it rejects with a
  \<open>SyntaxError\<close> on a body that is not JSON). \<open>response.ok\<close> is the Fetch standard's:
  the status is in the range 200 to 299.
\<close>

record 'b response =
  status :: nat
  json :: "js_error + 'b"

definition ok :: "'b response \<Rightarrow> bool" where
  "ok r \<longleftrightarrow> 200 \<le> status r \<and> status r \<le> 299"

text \<open>
  The second argument of \<open>moderate\<close>: the text, the chosen \<open>File\<close>, or \<open>undefined\<close>
  (what \<open>files[0]\<close> of an empty file list is). \<open>formValue\<close> is the value of the entry
  that \<open>FormData.append(name, value)\<close> stores: a file as it is, a string converted to a
  \<open>USVString\<close>, any other value as its string.
\<close>

datatype content = Text jsstring | File js_file | Undefined

definition formValue :: "content \<Rightarrow> content" where
  "formValue c =
     (case c of
        Text s \<Rightarrow> Text (toUSVString s)
      | File f \<Rightarrow> File f
      | Undefined \<Rightarrow> Text (asc ''undefined''))"

datatype http_method = GET | POST

text \<open>
  What is handed to \<open>fetch\<close>; \<open>body\<close> is the entry list of the \<open>FormData\<close> object
  (its encoding as multipart text is the browser's). \<open>abort_after\<close> is the abort signal: the delay in
  milliseconds after which the timer of the \<open>AbortController\<close> aborts the request
  (\<open>None\<close> when no signal is passed).
\<close>

record request =
  url :: jsstring
  http_method :: http_method
  body :: "(jsstring \<times> content) list"
  abort_after :: "nat option"

text \<open>
  The network is a parameter: \<open>fetch\<close> maps the request to what the promise settles to,
  \<open>Inl\<close> a rejection (a network failure, or the \<open>AbortError\<close> raised when the abort
  signal fires first), \<open>Inr\<close> the response. Elapsed time itself is not modelled.
\<close>

type_synonym 'b fetch = "request \<Rightarrow> js_error + 'b response"

record moderate_result =
  r_success :: bool
  r_data :: "moderation_result option"

definition formData :: "jsstring \<Rightarrow> content \<Rightarrow> (jsstring \<times> content) list" where
  "formData contentType c =
     [(asc ''content_type'', formValue (Text contentType))] @
     (if contentType = asc ''text'' then [(asc ''text'', formValue c)]
      else [(asc ''file'', formValue c)])"

definition moderateRequest :: "jsstring \<Rightarrow> content \<Rightarrow> request" where
  "moderateRequest contentType c =
     \<lparr>url = MODERATE, http_method = POST, body = formData contentType c,
      abort_after = Some TIMEOUT\<rparr>"

definition TIMEOUT_MESSAGE :: jsstring where
  "TIMEOUT_MESSAGE = [0x8BF7, 0x6C42, 0x8D85, 0x65F6, 0xFF0C, 0x8BF7, 0x68C0, 0x67E5,
                      0x7F51, 0x7EDC, 0x6216, 0x6587, 0x4EF6, 0x5927, 0x5C0F]"

definition HTTP_ERROR_PREFIX :: jsstring where
  "HTTP_ERROR_PREFIX = [0x48, 0x54, 0x54, 0x50, 0x9519, 0x8BEF, 0x3A, 0x20]"

definition DEFAULT_FAILURE :: jsstring where
  "DEFAULT_FAILURE = [0x5BA1, 0x6838, 0x5931, 0x8D25]"

text \<open>\<open>data.error || d\<close>: an absent or empty string is falsy.\<close>

definition or_default :: "jsstring option \<Rightarrow> jsstring \<Rightarrow> jsstring" where
  "or_default e d = (case e of None \<Rightarrow> d | Some m \<Rightarrow> if m = [] then d else m)"

text \<open>The \<open>try\<close> block of \<open>moderate\<close>, then its \<open>catch\<close>.\<close>

definition moderate_try :: "api_body fetch \<Rightarrow> request \<Rightarrow> js_error + moderate_result" where
  "moderate_try fetch req =
     (case fetch req of
        Inl e \<Rightarrow> Inl e
      | Inr response \<Rightarrow>
          if \<not> ok response then Inl (Error (HTTP_ERROR_PREFIX @ digits (status response)))
          else (case json response of
                  Inl e \<Rightarrow> Inl e
                | Inr data \<Rightarrow>
                    if success data then Inr \<lparr>r_success = True, r_data = result data\<rparr>
                    else Inl (Error (or_default (error data) DEFAULT_FAILURE))))"

text \<open>
  \<open>moderate\<close> returns what its promise settles to, and the requests it has handed to
  \<open>fetch\<close>.
\<close>

definition moderate ::
  "api_body fetch \<Rightarrow> jsstring \<Rightarrow> content \<Rightarrow> (js_error + moderate_result) \<times> request list" where
  "moderate fetch contentType c =
     (let req = moderateRequest contentType c
      in (case moderate_try fetch req of
            Inl err \<Rightarrow>
              if err_name err = asc ''AbortError'' then Inl (Error TIMEOUT_MESSAGE)
              else Inl err
          | Inr r \<Rightarrow> Inr r,
          [req]))"

text \<open>The body of \<open>GET /api/health\<close>, and the object \<open>healthCheck\<close> makes of a failure.\<close>

record 'm health =
  h_status :: jsstring
  h_models :: "'m option"
  h_error :: "jsstring option"

definition healthRequest :: request where
  "healthRequest = \<lparr>url = HEALTH, http_method = GET, body = [], abort_after = None\<rparr>"

definition unhealthy :: "jsstring \<Rightarrow> 'm health" where
  "unhealthy m = \<lparr>h_status = asc ''unhealthy'', h_models = None, h_error = Some m\<rparr>"

definition healthCheck :: "'m health fetch \<Rightarrow> js_error + 'm health" where
  "healthCheck fetch =
     (case fetch healthRequest of
        Inl e \<Rightarrow> Inr (unhealthy (err_message e))
      | Inr response \<Rightarrow>
          (case json response of
             Inl e \<Rightarrow> Inr (unhealthy (err_message e))
           | Inr b \<Rightarrow> Inr b))"

section \<open>The document\<close>

text \<open>
  The DOM as a store: an element is an object at an address, \<open>elems\<close> lists the
  addresses of the elements of the document in document order, and \<open>heap\<close> holds the
  properties of each one. An element reference held by the controller and one found by a
  later lookup are the same address, so a write through one is read through the other.
  Of an element only the properties this program reads or writes are kept; every element
  carries all of them. \<open>classList\<close> is the list of class tokens (assigning \<open>className\<close>
  replaces it).
\<close>

type_synonym ref = nat

record node =
  node_id :: "jsstring option"
  data_mode :: "jsstring option"
  classList :: "jsstring list"
  disabled :: bool
  style_display :: jsstring
  textContent :: jsstring
  innerHTML :: jsstring
  input_value :: jsstring
  files :: "js_file list"

record document =
  elems :: "ref list"
  heap :: "ref \<Rightarrow> node"

definition getElementById :: "document \<Rightarrow> jsstring \<Rightarrow> ref option" where
  "getElementById d i = find (\<lambda>r. node_id (heap d r) = Some i) (elems d)"

text \<open>\<open>querySelectorAll('.c')\<close> for a class name \<open>c\<close>.\<close>

definition querySelectorAll_class :: "document \<Rightarrow> jsstring \<Rightarrow> ref list" where
  "querySelectorAll_class d c = filter (\<lambda>r. c \<in> set (classList (heap d r))) (elems d)"

text \<open>
  \<open>querySelector(`[data-mode="${m}"]`)\<close>: the mode is spliced into the text of a
  selector. When the mode has no character that CSS reads specially inside a string (the
  double quote, the backslash, a newline, NUL or a surrogate), the text is the attribute
  selector for the value \<open>m\<close> and the result is the first element in document order
  whose \<open>data-mode\<close> is \<open>m\<close>. For any other mode the text is handed to the selector
  engine of the browser, a parameter: it may throw a \<open>SyntaxError\<close> or match by
  whatever selector the text then is.
\<close>

type_synonym selector_engine = "jsstring \<Rightarrow> document \<Rightarrow> js_error + ref option"

definition selector_safe :: "jsstring \<Rightarrow> bool" where
  "selector_safe m \<longleftrightarrow>
     list_all (\<lambda>c. c \<noteq> 0x0 \<and> c \<noteq> 0xA \<and> c \<noteq> 0xC \<and> c \<noteq> 0xD \<and> c \<noteq> 0x22 \<and> c \<noteq> 0x5C \<and>
                   \<not> isLeadSurrogate c \<and> \<not> isTrailSurrogate c) m"

definition data_mode_selector :: "jsstring \<Rightarrow> jsstring" where
  "data_mode_selector m = asc ''[data-mode=\"'' @ m @ asc ''\"]''"

definition querySelector_data_mode ::
  "selector_engine \<Rightarrow> document \<Rightarrow> jsstring \<Rightarrow> js_error + ref option" where
  "querySelector_data_mode engine d m =
     (if selector_safe m then Inr (find (\<lambda>r. data_mode (heap d r) = Some m) (elems d))
      else engine (data_mode_selector m) d)"

definition modify :: "ref \<Rightarrow> (node \<Rightarrow> node) \<Rightarrow> document \<Rightarrow> document" where
  "modify r f d = d\<lparr>heap := (heap d)(r := f (heap d r))\<rparr>"

text \<open>\<open>if (x) x.p = v\<close>: a write guarded by the reference being non-null.\<close>

definition when_present :: "ref option \<Rightarrow> (node \<Rightarrow> node) \<Rightarrow> document \<Rightarrow> document" where
  "when_present r f d = (case r of None \<Rightarrow> d | Some x \<Rightarrow> modify x f d)"

definition add_class :: "jsstring \<Rightarrow> node \<Rightarrow> node" where
  "add_class c n =
     n\<lparr>classList := (if c \<in> set (classList n) then classList n else classList n @ [c])\<rparr>"

definition remove_class :: "jsstring \<Rightarrow> node \<Rightarrow> node" where
  "remove_class c n = n\<lparr>classList := removeAll c (classList n)\<rparr>"

section \<open>ui.js\<close>

record element_refs =
  moderate_btn :: "ref option"
  btn_text :: "ref option"
  loading :: "ref option"
  result_container :: "ref option"
  placeholder :: "ref option"
  risk_badge :: "ref option"
  result_details :: "ref option"
  text_input :: "ref option"
  modeTabs :: "ref list"
  panels :: "ref list"

record UIController =
  elements :: element_refs
  currentMode :: jsstring
  isProcessing :: bool

definition initializeElements :: "document \<Rightarrow> element_refs" where
  "initializeElements d =
     \<lparr>moderate_btn = getElementById d (asc ''moderate-btn''),
      btn_text = getElementById d (asc ''btn-text''),
      loading = getElementById d (asc ''loading''),
      result_container = getElementById d (asc ''result-container''),
      placeholder = getElementById d (asc ''placeholder''),
      risk_badge = getElementById d (asc ''risk-badge''),
      result_details = getElementById d (asc ''result-details''),
      text_input = getElementById d (asc ''text-input''),
      modeTabs = querySelectorAll_class d (asc ''mode-tab''),
      panels = querySelectorAll_class d (asc ''panel'')\<rparr>"

definition new_UIController :: "document \<Rightarrow> UIController" where
  "new_UIController d =
     \<lparr>elements = initializeElements d, currentMode = asc ''text'', isProcessing = False\<rparr>"

text \<open>
  The state a method runs in: the document and the controller. A method that can throw
  returns the state at the throw together with the exception.
\<close>

record world =
  doc :: document
  ui :: UIController

definition ANALYSING :: jsstring where
  "ANALYSING = [0x5206, 0x6790, 0x4E2D, 0x2E, 0x2E, 0x2E]"

definition BUTTON_LABEL :: jsstring where
  "BUTTON_LABEL = [0xD83D, 0xDD0D, 0x20, 0x542F, 0x52A8, 0x8DE8, 0x6A21, 0x6001, 0x667A,
                   0x80FD, 0x5BA1, 0x6838]"

definition PROCESSING_FAILED :: jsstring where
  "PROCESSING_FAILED = [0x274C, 0x20, 0x5904, 0x7406, 0x5931, 0x8D25]"

definition resetResults :: "world \<Rightarrow> world" where
  "resetResults w =
     (let els = elements (ui w);
          d = when_present (result_container els) (remove_class (asc ''show'')) (doc w);
          d = when_present (placeholder els) (\<lambda>n. n\<lparr>style_display := asc ''block''\<rparr>) d
      in w\<lparr>doc := d\<rparr>)"

definition switchMode ::
  "selector_engine \<Rightarrow> jsstring \<Rightarrow> world \<Rightarrow> world \<times> js_error option" where
  "switchMode engine mode w =
     (let els = elements (ui w);
          w = w\<lparr>ui := (ui w)\<lparr>currentMode := mode\<rparr>\<rparr>;
          d = fold (\<lambda>t. modify t (remove_class (asc ''active''))) (modeTabs els) (doc w);
          d = fold (\<lambda>p. modify p (remove_class (asc ''active''))) (panels els) d
      in case querySelector_data_mode engine d mode of
           Inl e \<Rightarrow> (w\<lparr>doc := d\<rparr>, Some e)
         | Inr None \<Rightarrow> (w\<lparr>doc := d\<rparr>, Some (TypeError (asc ''querySelector'')))
         | Inr (Some tab) \<Rightarrow>
             (let d = modify tab (add_class (asc ''active'')) d
              in case getElementById d (mode @ asc ''-panel'') of
                   None \<Rightarrow> (w\<lparr>doc := d\<rparr>, Some (TypeError (asc ''getElementById'')))
                 | Some panel \<Rightarrow>
                     (let d = modify panel (add_class (asc ''active'')) d
                      in (resetResults (w\<lparr>doc := d\<rparr>), None))))"

text \<open>
  The click listener that \<open>bindModeSwitch\<close> puts on every tab: \<open>target\<close> is the element
  the click landed on, the tab or an element inside it. \<open>dataset.mode\<close> of an element
  with no \<open>data-mode\<close> attribute is \<open>undefined\<close>; as a mode it stands here as the string
  \<open>undefined\<close>, which is what every use of a mode in this program makes of it (a
  template literal, a property key, a form value; a comparison with a mode name fails
  for both).
\<close>

definition modeTab_click ::
  "selector_engine \<Rightarrow> ref \<Rightarrow> world \<Rightarrow> world \<times> js_error option" where
  "modeTab_click engine target w =
     (let targetMode = (case data_mode (heap (doc w) target) of
                          None \<Rightarrow> asc ''undefined''
                        | Some m \<Rightarrow> m)
      in switchMode engine targetMode w)"

text \<open>
  \<open>updateLoadingProgress\<close> writes the first caption; the interval timer that rotates
  the captions and the timeout that stops it run later and are not part of the call.
  For a mode that is no key of \<open>LOADING_STEPS\<close>, \<open>steps\<close> is \<open>undefined\<close> and \<open>steps[0]\<close>
  throws, unless the mode names an inherited member: then \<open>steps[0]\<close> is \<open>undefined\<close>,
  and assigning that to \<open>textContent\<close> empties the element.
\<close>

definition updateLoadingProgress :: "jsstring \<Rightarrow> world \<Rightarrow> world \<times> js_error option" where
  "updateLoadingProgress mode w =
     (case getElementById (doc w) (asc ''loading-detail'') of
        None \<Rightarrow> (w, None)
      | Some loadingDetail \<Rightarrow>
          (case LOADING_STEPS mode of
             None \<Rightarrow>
               if inherited_member mode
               then (w\<lparr>doc := modify loadingDetail (\<lambda>n. n\<lparr>textContent := []\<rparr>) (doc w)\<rparr>,
                     None)
               else (w, Some (TypeError (asc ''steps'')))
           | Some steps \<Rightarrow>
               (w\<lparr>doc := modify loadingDetail (\<lambda>n. n\<lparr>textContent := steps ! 0\<rparr>) (doc w)\<rparr>,
                None)))"

definition setProcessingState :: "bool \<Rightarrow> world \<Rightarrow> world \<times> js_error option" where
  "setProcessingState p w =
     (let els = elements (ui w);
          w = w\<lparr>ui := (ui w)\<lparr>isProcessing := p\<rparr>\<rparr>
      in case moderate_btn els of
           None \<Rightarrow> (w, Some (TypeError (asc ''btn'')))
         | Some btn \<Rightarrow>
             (let d = modify btn (\<lambda>n. n\<lparr>disabled := p\<rparr>) (doc w)
              in case loading els of
                   None \<Rightarrow> (w\<lparr>doc := d\<rparr>, Some (TypeError (asc ''loading'')))
                 | Some l \<Rightarrow>
                     if p then
                       (let d = modify l (add_class (asc ''show'')) d;
                            d = when_present (placeholder els)
                                  (\<lambda>n. n\<lparr>style_display := asc ''none''\<rparr>) d;
                            d = when_present (result_container els)
                                  (remove_class (asc ''show'')) d;
                            d = when_present (btn_text els) (\<lambda>n. n\<lparr>textContent := ANALYSING\<rparr>) d
                        in (w\<lparr>doc := d\<rparr>, None))
                     else
                       (let d = modify l (remove_class (asc ''show'')) d;
                            d = when_present (btn_text els)
                                  (\<lambda>n. n\<lparr>textContent := BUTTON_LABEL\<rparr>) d
                        in (w\<lparr>doc := d\<rparr>, None))))"

text \<open>The risk level \<open>displayResults\<close> derives from the result (its local \<open>riskLevel\<close>).\<close>

definition riskLevel :: "moderation_result \<Rightarrow> risk_level" where
  "riskLevel r =
     (if violation r then
        (if confidence r \<ge> threshold DANGER then DANGER
         else if confidence r \<ge> threshold WARNING then WARNING
         else WARNING)
      else SAFE)"

text \<open>
  \<open>renderResultHTML\<close> builds the detail markup with floating-point formatting
  (\<open>toFixed\<close> of products); it is a parameter of the model. A result that is
  \<open>undefined\<close> (a body with no \<open>result\<close> member) makes \<open>result.violation\<close> throw.
\<close>

type_synonym renderer = "moderation_result \<Rightarrow> jsstring \<Rightarrow> jsstring"

definition displayResults ::
  "renderer \<Rightarrow> moderation_result option \<Rightarrow> jsstring \<Rightarrow> world \<Rightarrow> world \<times> js_error option" where
  "displayResults renderResultHTML res mode w =
     (let els = elements (ui w)
      in case (risk_badge els, result_details els, result_container els) of
           (Some riskBadge, Some resultDetails, Some resultContainer) \<Rightarrow>
             (case res of
                None \<Rightarrow> (w, Some (TypeError (asc ''result'')))
              | Some r \<Rightarrow>
                  (let d = modify riskBadge
                             (\<lambda>n. n\<lparr>classList := [asc ''risk-badge'', rl_class (riskLevel r)],
                                    textContent := rl_text (riskLevel r)\<rparr>) (doc w);
                       d = modify resultDetails
                             (\<lambda>n. n\<lparr>innerHTML := renderResultHTML r mode\<rparr>) d;
                       d = modify resultContainer (add_class (asc ''show'')) d
                   in (w\<lparr>doc := d\<rparr>, None)))
         | _ \<Rightarrow> (w, None))"

text \<open>
  The literals \<open>0.7\<close> and \<open>0.4\<close> of \<open>getConsistencyInfo\<close> are doubles; these are their
  exact values (\<open>0.7\<close> is \<open>3152519739159347 / 2^52\<close>, just below \<open>7/10\<close>, and \<open>0.4\<close> is
  \<open>3602879701896397 / 2^53\<close>, just above \<open>4/10\<close>). A score is compared with them by
  value.
\<close>

definition double_0_7 :: rat where
  "double_0_7 = 3152519739159347 / 4503599627370496"

definition double_0_4 :: rat where
  "double_0_4 = 3602879701896397 / 9007199254740992"

record consistency_info =
  ci_class :: jsstring
  icon :: jsstring
  title :: jsstring

definition getConsistencyInfo :: "rat \<Rightarrow> consistency_info" where
  "getConsistencyInfo score =
     (if score > double_0_7 then
        \<lparr>ci_class = asc ''consistency-high'', icon = [0x2705],
         title = [0x9AD8, 0x4E00, 0x81F4, 0x6027]\<rparr>
      else if score > double_0_4 then
        \<lparr>ci_class = asc ''consistency-medium'', icon = [0x26A0, 0xFE0F],
         title = [0x4E2D, 0x7B49, 0x4E00, 0x81F4, 0x6027]\<rparr>
      else
        \<lparr>ci_class = asc ''consistency-low'', icon = [0xD83D, 0xDEA8],
         title = [0x4F4E, 0x4E00, 0x81F4, 0x6027]\<rparr>)"

definition errorPanel :: "jsstring \<Rightarrow> jsstring" where
  "errorPanel m =
     asc ''<div class=\"result-section\"><div class=\"error-message\">'' @ m @
     asc ''</div></div>''"

definition showError :: "jsstring \<Rightarrow> world \<Rightarrow> world" where
  "showError m w =
     (let els = elements (ui w);
          d = when_present (risk_badge els)
                (\<lambda>n. n\<lparr>classList := [asc ''risk-badge'', asc ''risk-danger''],
                       textContent := PROCESSING_FAILED\<rparr>) (doc w);
          d = when_present (result_details els) (\<lambda>n. n\<lparr>innerHTML := errorPanel m\<rparr>) d;
          d = when_present (result_container els) (add_class (asc ''show'')) d
      in w\<lparr>doc := d\<rparr>)"

section \<open>app.js\<close>

definition ALERT_MESSAGE :: jsstring where
  "ALERT_MESSAGE = [0x26A0, 0xFE0F, 0x20, 0x8BF7, 0x5148, 0x8F93, 0x5165, 0x5185, 0x5BB9,
                    0x6216, 0x4E0A, 0x4F20, 0x6587, 0x4EF6, 0xFF01]"

definition videoTooLarge :: "nat \<Rightarrow> jsstring" where
  "videoTooLarge sz =
     [0x89C6, 0x9891, 0x6587, 0x4EF6, 0x8FC7, 0x5927, 0xFF08] @ toFixed1_MB sz @
     [0x4D, 0x42, 0xFF09, 0xFF0C, 0x8BF7, 0x9650, 0x5236, 0x5728, 0x35, 0x30, 0x4D, 0x42,
      0x4EE5, 0x5185]"

definition validateInput :: "document \<Rightarrow> jsstring \<Rightarrow> bool" where
  "validateInput d mode =
     (if mode = asc ''text'' then
        (case getElementById d (asc ''text-input'') of
           None \<Rightarrow> False
         | Some textInput \<Rightarrow> length (trim (input_value (heap d textInput))) > 0)
      else
        (case getElementById d (mode @ asc ''-file'') of
           None \<Rightarrow> False
         | Some fileInput \<Rightarrow> length (files (heap d fileInput)) > 0))"

definition prepareContent :: "document \<Rightarrow> jsstring \<Rightarrow> js_error + content" where
  "prepareContent d mode =
     (if mode = asc ''text'' then
        (case getElementById d (asc ''text-input'') of
           None \<Rightarrow> Inl (TypeError (asc ''getElementById''))
         | Some textInput \<Rightarrow> Inr (Text (input_value (heap d textInput))))
      else
        (case getElementById d (mode @ asc ''-file'') of
           None \<Rightarrow> Inl (TypeError (asc ''fileInput''))
         | Some fileInput \<Rightarrow>
             (case files (heap d fileInput) of
                [] \<Rightarrow> if mode = asc ''video'' then Inl (TypeError (asc ''file''))
                      else Inr Undefined
              | f # _ \<Rightarrow>
                  if mode = asc ''video'' \<and> file_size f > MAX_SIZE
                  then Inl (Error (videoTooLarge (file_size f)))
                  else Inr (File f))))"

text \<open>
  What \<open>startModeration\<close> does to the outside: the \<open>alert\<close> dialogs and the requests
  handed to \<open>fetch\<close>, in order. Console output is left out.
\<close>

datatype event = Alert jsstring | Fetch request

text \<open>
  The \<open>try\<close> block: the state it leaves, the exception it throws to the \<open>catch\<close> (if
  any), and its events.
\<close>

definition try_block ::
  "renderer \<Rightarrow> api_body fetch \<Rightarrow> jsstring \<Rightarrow> world \<Rightarrow> (world \<times> js_error option) \<times> event list" where
  "try_block renderResultHTML fetch mode w =
     (case prepareContent (doc w) mode of
        Inl e \<Rightarrow> ((w, Some e), [])
      | Inr c \<Rightarrow>
          (case moderate fetch mode c of
             (Inl e, sent) \<Rightarrow> ((w, Some e), map Fetch sent)
           | (Inr r, sent) \<Rightarrow>
               if r_success r
               then (displayResults renderResultHTML (r_data r) mode w, map Fetch sent)
               else ((w, None), map Fetch sent)))"

text \<open>
  A run of \<open>startModeration\<close>: the state when its promise settles, its events, and the
  exception it rejects with (\<open>None\<close> when it resolves). The run is taken as one step:
  nothing else touches the document while the request is in flight.
\<close>

record run =
  final :: world
  events :: "event list"
  thrown :: "js_error option"

definition startModeration :: "renderer \<Rightarrow> api_body fetch \<Rightarrow> world \<Rightarrow> run" where
  "startModeration renderResultHTML fetch w =
     (let mode = currentMode (ui w)
      in if \<not> validateInput (doc w) mode
         then \<lparr>final = w, events = [Alert ALERT_MESSAGE], thrown = None\<rparr>
         else
           (case setProcessingState True w of
              (w, Some e) \<Rightarrow> \<lparr>final = w, events = [], thrown = Some e\<rparr>
            | (w, None) \<Rightarrow>
                (case updateLoadingProgress mode w of
                   (w, Some e) \<Rightarrow> \<lparr>final = w, events = [], thrown = Some e\<rparr>
                 | (w, None) \<Rightarrow>
                     (case try_block renderResultHTML fetch mode w of
                        ((w, caught), evs) \<Rightarrow>
                          (let w = (case caught of
                                      None \<Rightarrow> w
                                    | Some err \<Rightarrow> showError (err_message err) w)
                           in case setProcessingState False w of
                                (w, e) \<Rightarrow> \<lparr>final = w, events = evs, thrown = e\<rparr>)))))"

section \<open>Definitions used in the proofs\<close>

text \<open>
  Two documents have the same inputs when they list the same elements and every element
  has the same id, \<open>data-mode\<close>, input value and files in both: the methods of the
  controller change other properties only, so lookups and the validation of the input
  give the same answer before and after them.
\<close>

definition same_inputs :: "document \<Rightarrow> document \<Rightarrow> bool" where
  "same_inputs d d' \<longleftrightarrow>
     elems d' = elems d \<and>
     (\<forall>r. node_id (heap d' r) = node_id (heap d r) \<and>
          data_mode (heap d' r) = data_mode (heap d r) \<and>
          input_value (heap d' r) = input_value (heap d r) \<and>
          files (heap d' r) = files (heap d r))"

definition keeps_inputs :: "(node \<Rightarrow> node) \<Rightarrow> bool" where
  "keeps_inputs f \<longleftrightarrow>
     (\<forall>n. node_id (f n) = node_id n \<and> data_mode (f n) = data_mode n \<and>
          input_value (f n) = input_value n \<and> files (f n) = files n)"

text \<open>The state in which the \<open>try\<close> block of a run of \<open>startModeration\<close> starts.\<close>

definition entered :: "world \<Rightarrow> world" where
  "entered w =
     fst (updateLoadingProgress (currentMode (ui w)) (fst (setProcessingState True w)))"

section \<open>Sample pages, results and networks\<close>

definition blank :: node where
  "blank = \<lparr>node_id = None, data_mode = None, classList = [], disabled = False,
            style_display = [], textContent = [], innerHTML = [], input_value = [],
            files = []\<rparr>"

definition element :: "string \<Rightarrow> node" where
  "element i = blank\<lparr>node_id := Some (asc i)\<rparr>"

text \<open>
  A page with every element the program looks up: the tabs, panels and file inputs of
  the four modes, a chosen video of 60000000 bytes, no chosen image or audio, and the
  result of an earlier submission on display. Element 20 is an icon inside the text tab;
  it has no \<open>data-mode\<close> attribute of its own. \<open>txt\<close> is the content of the text
  input.
\<close>

definition demo_heap :: "jsstring \<Rightarrow> ref \<Rightarrow> node" where
  "demo_heap txt r =
     (if r = 0 then element ''moderate-btn''
      else if r = 1 then element ''btn-text''
      else if r = 2 then element ''loading''
      else if r = 3 then (element ''result-container'')\<lparr>classList := [asc ''show'']\<rparr>
      else if r = 4 then (element ''placeholder'')\<lparr>style_display := asc ''none''\<rparr>
      else if r = 5 then element ''risk-badge''
      else if r = 6 then element ''result-details''
      else if r = 7 then (element ''text-input'')\<lparr>input_value := txt\<rparr>
      else if r = 8 then
        (element ''video-file'')
          \<lparr>files := [\<lparr>file_name = asc ''clip.mp4'', file_size = 60000000\<rparr>]\<rparr>
      else if r = 9 then
        blank\<lparr>data_mode := Some (asc ''text''), classList := [asc ''mode-tab'', asc ''active'']\<rparr>
      else if r = 10 then
        blank\<lparr>data_mode := Some (asc ''video''), classList := [asc ''mode-tab'']\<rparr>
      else if r = 11 then (element ''text-panel'')\<lparr>classList := [asc ''panel'', asc ''active'']\<rparr>
      else if r = 12 then (element ''video-panel'')\<lparr>classList := [asc ''panel'']\<rparr>
      else if r = 13 then element ''image-file''
      else if r = 14 then element ''loading-detail''
      else if r = 15 then
        blank\<lparr>data_mode := Some (asc ''image''), classList := [asc ''mode-tab'']\<rparr>
      else if r = 16 then
        blank\<lparr>data_mode := Some (asc ''audio''), classList := [asc ''mode-tab'']\<rparr>
      else if r = 17 then (element ''image-panel'')\<lparr>classList := [asc ''panel'']\<rparr>
      else if r = 18 then (element ''audio-panel'')\<lparr>classList := [asc ''panel'']\<rparr>
      else if r = 19 then element ''audio-file''
      else if r = 20 then blank\<lparr>classList := [asc ''tab-icon'']\<rparr>
      else blank)"

definition demo_page :: "jsstring \<Rightarrow> document" where
  "demo_page txt =
     \<lparr>elems = [0, 1, 2, 3, 4, 5, 6, 7, 8, 9, 20, 10, 11, 12, 13, 14, 15, 16, 17, 18, 19],
      heap = demo_heap txt\<rparr>"

definition demo_world :: "jsstring \<Rightarrow> jsstring \<Rightarrow> world" where
  "demo_world txt mode =
     \<lparr>doc = demo_page txt, ui = (new_UIController (demo_page txt))\<lparr>currentMode := mode\<rparr>\<rparr>"

text \<open>A selector engine that takes no selector text.\<close>

definition strict_engine :: selector_engine where
  "strict_engine sel d = Inl \<lparr>err_name = asc ''SyntaxError'', err_message = sel\<rparr>"

definition no_render :: renderer where
  "no_render r mode = []"

definition offline :: "'b fetch" where
  "offline req = Inl (TypeError (asc ''Failed to fetch''))"

definition aborted :: "'b fetch" where
  "aborted req =
     Inl \<lparr>err_name = asc ''AbortError'', err_message = asc ''The user aborted a request.''\<rparr>"

definition replying :: "nat \<Rightarrow> 'b \<Rightarrow> 'b fetch" where
  "replying st b req = Inr \<lparr>status = st, json = Inr b\<rparr>"

definition sample_result :: "bool \<Rightarrow> rat \<Rightarrow> moderation_result" where
  "sample_result v c =
     \<lparr>modality = Some (asc ''text''), confidence = c, result_type = None, violation = v,
      alignment_score = None, frames = []\<rparr>"

section \<open>Basic facts\<close>

lemma asc_eq_iff [simp]: "asc s = asc t \<longleftrightarrow> s = t"
  unfolding asc_def by (simp add: inj_map_eq_map inj_of_char)

lemma asc_append [simp]: "asc s @ asc t = asc (s @ t)"
  by (simp add: asc_def)

lemma risk_levels_distinct: "DANGER \<noteq> WARNING" "WARNING \<noteq> SAFE" "DANGER \<noteq> SAFE"
  by (simp_all add: DANGER_def WARNING_def SAFE_def)

lemmas demo_defs = demo_world_def demo_page_def demo_heap_def element_def blank_def
  new_UIController_def initializeElements_def getElementById_def querySelectorAll_class_def
  querySelector_data_mode_def

section \<open>The API client\<close>

text \<open>
  C3. When the \<open>fetch\<close> of \<open>moderate\<close> rejects with an error named \<open>AbortError\<close> (what
  the abort signal of \<open>TIMEOUT\<close> = 120000 milliseconds raises), \<open>moderate\<close> rejects with a
  new \<open>Error\<close> carrying the translated timeout message, and not with the abort error.
\<close>

theorem moderate_timeout:
  "fetch (moderateRequest ct c) = Inl e \<Longrightarrow> err_name e = asc ''AbortError'' \<Longrightarrow>
   abort_after (moderateRequest ct c) = Some 120000 \<and>
   fst (moderate fetch ct c) = Inl (Error TIMEOUT_MESSAGE) \<and>
   fst (moderate fetch ct c) \<noteq> Inl e"
  by (auto simp: moderate_def moderate_try_def moderateRequest_def TIMEOUT_def Let_def Error_def)

theorem moderate_timeout_witness:
  "fst (moderate aborted (asc ''video'') (File \<lparr>file_name = asc ''clip.mp4'', file_size = 1024\<rparr>))
     = Inl (Error TIMEOUT_MESSAGE)"
  using moderate_timeout [of aborted "asc ''video''"
      "File \<lparr>file_name = asc ''clip.mp4'', file_size = 1024\<rparr>"
      "\<lparr>err_name = asc ''AbortError'', err_message = asc ''The user aborted a request.''\<rparr>"]
  by (simp add: aborted_def)

text \<open>
  C5, as the claim has it, fails on a failure body whose \<open>error\<close> member is the empty
  string: the member is present, yet \<open>data.error || d\<close> takes the default, so the
  rejection carries the default message and not the server's (empty) one.
\<close>

theorem moderate_empty_error_counterexample:
  "error \<lparr>success = False, result = None, error = Some []\<rparr> = Some [] \<and>
   fst (moderate (replying 200 \<lparr>success = False, result = None, error = Some []\<rparr>)
          (asc ''text'') (Text (asc ''hello''))) = Inl (Error DEFAULT_FAILURE) \<and>
   fst (moderate (replying 200 \<lparr>success = False, result = None, error = Some []\<rparr>)
          (asc ''text'') (Text (asc ''hello''))) \<noteq> Inl (Error [])"
  by (simp add: moderate_def moderate_try_def replying_def ok_def or_default_def Let_def
      Error_def DEFAULT_FAILURE_def)

text \<open>
  C5, amended. For a response that \<open>fetch\<close> delivers: a status outside 200..299 makes
  \<open>moderate\<close> reject with the HTTP error prefix followed by the status in decimal; a JSON
  body with \<open>success\<close> false makes it reject with the server's error message when that is
  a non-empty string, and with the default message when the error is absent or empty; a
  JSON body with \<open>success\<close> true makes it resolve with \<open>{success: true, data: result}\<close>.
\<close>

theorem moderate_outcomes:
  "fetch (moderateRequest ct c) = Inr response \<Longrightarrow>
   (\<not> (200 \<le> status response \<and> status response \<le> 299) \<longrightarrow>
      fst (moderate fetch ct c) = Inl (Error (HTTP_ERROR_PREFIX @ digits (status response)))) \<and>
   (\<forall>d. ok response \<and> json response = Inr d \<and> \<not> success d \<longrightarrow>
        fst (moderate fetch ct c) =
          Inl (Error (case error d of
                        None \<Rightarrow> DEFAULT_FAILURE
                      | Some m \<Rightarrow> if m = [] then DEFAULT_FAILURE else m))) \<and>
   (\<forall>d. ok response \<and> json response = Inr d \<and> success d \<longrightarrow>
        fst (moderate fetch ct c) = Inr \<lparr>r_success = True, r_data = result d\<rparr>)"
  by (auto simp: moderate_def moderate_try_def Let_def Error_def or_default_def ok_def
      split: option.split)

theorem moderate_outcomes_witness:
  "fst (moderate (replying 500 \<lparr>success = False, result = None, error = None\<rparr>)
          (asc ''text'') (Text (asc ''hello''))) = Inl (Error (HTTP_ERROR_PREFIX @ asc ''500'')) \<and>
   fst (moderate (replying 200 \<lparr>success = False, result = None, error = Some (asc ''bad input'')\<rparr>)
          (asc ''text'') (Text (asc ''hello''))) = Inl (Error (asc ''bad input'')) \<and>
   fst (moderate (replying 200 \<lparr>success = False, result = None, error = None\<rparr>)
          (asc ''text'') (Text (asc ''hello''))) = Inl (Error DEFAULT_FAILURE) \<and>
   fst (moderate (replying 200
            \<lparr>success = True, result = Some (sample_result False (1 / 10)), error = None\<rparr>)
          (asc ''text'') (Text (asc ''hello'')))
     = Inr \<lparr>r_success = True, r_data = Some (sample_result False (1 / 10))\<rparr>"
proof -
  let ?ct = "asc ''text''" and ?c = "Text (asc ''hello'')"
  have d: "digits 500 = asc ''500''"
    by (simp add: digits.simps asc_def)
  have a: "fst (moderate (replying 500 \<lparr>success = False, result = None, error = None\<rparr>) ?ct ?c)
      = Inl (Error (HTTP_ERROR_PREFIX @ asc ''500''))"
    using moderate_outcomes [of "replying 500 \<lparr>success = False, result = None, error = None\<rparr>" ?ct ?c
        "\<lparr>status = 500, json = Inr \<lparr>success = False, result = None, error = None\<rparr>\<rparr>"] d
    by (simp add: replying_def)
  have b: "fst (moderate (replying 200
        \<lparr>success = False, result = None, error = Some (asc ''bad input'')\<rparr>) ?ct ?c)
      = Inl (Error (asc ''bad input''))"
    using moderate_outcomes [of
        "replying 200 \<lparr>success = False, result = None, error = Some (asc ''bad input'')\<rparr>" ?ct ?c
        "\<lparr>status = 200,
          json = Inr \<lparr>success = False, result = None, error = Some (asc ''bad input'')\<rparr>\<rparr>"]
    by (simp add: replying_def ok_def asc_def)
  have c: "fst (moderate (replying 200 \<lparr>success = False, result = None, error = None\<rparr>) ?ct ?c)
      = Inl (Error DEFAULT_FAILURE)"
    using moderate_outcomes [of "replying 200 \<lparr>success = False, result = None, error = None\<rparr>" ?ct ?c
        "\<lparr>status = 200, json = Inr \<lparr>success = False, result = None, error = None\<rparr>\<rparr>"]
    by (simp add: replying_def ok_def)
  have e: "fst (moderate (replying 200
        \<lparr>success = True, result = Some (sample_result False (1 / 10)), error = None\<rparr>) ?ct ?c)
      = Inr \<lparr>r_success = True, r_data = Some (sample_result False (1 / 10))\<rparr>"
    using moderate_outcomes [of "replying 200
        \<lparr>success = True, result = Some (sample_result False (1 / 10)), error = None\<rparr>" ?ct ?c
        "\<lparr>status = 200, json = Inr
          \<lparr>success = True, result = Some (sample_result False (1 / 10)), error = None\<rparr>\<rparr>"]
    by (simp add: replying_def ok_def)
  from a b c e show ?thesis by simp
qed

text \<open>
  C7. \<open>healthCheck\<close> never rejects: whatever the network does it resolves; when the GET
  request fails it resolves with \<open>{status: 'unhealthy', error: message}\<close>; when the
  request succeeds and the body parses it resolves with the parsed body.
\<close>

theorem healthCheck_never_rejects:
  "(\<exists>h. healthCheck fetch = Inr h) \<and>
   (\<forall>e. fetch healthRequest = Inl e \<longrightarrow>
        healthCheck fetch =
          Inr \<lparr>h_status = asc ''unhealthy'', h_models = None, h_error = Some (err_message e)\<rparr>) \<and>
   (\<forall>response b. fetch healthRequest = Inr response \<and> json response = Inr b \<longrightarrow>
        healthCheck fetch = Inr b)"
  by (auto simp: healthCheck_def unhealthy_def split: sum.split)

theorem healthCheck_never_rejects_witness:
  "healthCheck (offline :: unit health fetch) = Inr (unhealthy (asc ''Failed to fetch'')) \<and>
   healthCheck (replying 200 \<lparr>h_status = asc ''healthy'', h_models = Some (), h_error = None\<rparr>)
     = Inr \<lparr>h_status = asc ''healthy'', h_models = Some (), h_error = None\<rparr>"
  using healthCheck_never_rejects [of "offline :: unit health fetch"]
    healthCheck_never_rejects [of
      "replying 200 \<lparr>h_status = asc ''healthy'', h_models = Some (), h_error = None\<rparr>"]
  by (simp add: offline_def replying_def TypeError_def unhealthy_def)

lemma toUSVString_wellFormed: "isWellFormed s \<Longrightarrow> toUSVString s = s"
  by (induction s rule: toUSVString.induct) (auto split: if_splits)

text \<open>
  C8, as the claim has it, fails for a text with a lone surrogate, which a text input can
  hold: \<open>FormData.append\<close> stores the text as a \<open>USVString\<close>, so the \<open>text\<close> field of the
  request holds \<open>U+FFFD\<close> where the content has the surrogate, and not the content.
\<close>

theorem moderate_lone_surrogate_counterexample:
  "snd (moderate offline (asc ''text'') (Text [0x61, 0xD800]))
     = [moderateRequest (asc ''text'') (Text [0x61, 0xD800])] \<and>
   body (moderateRequest (asc ''text'') (Text [0x61, 0xD800]))
     = [(asc ''content_type'', Text (asc ''text'')), (asc ''text'', Text [0x61, 0xFFFD])] \<and>
   Text [0x61, 0xFFFD] \<noteq> Text [0x61, 0xD800]"
  by (simp add: moderate_def moderateRequest_def formData_def formValue_def Let_def asc_def
      isLeadSurrogate_def isTrailSurrogate_def)

text \<open>
  C8, amended. \<open>moderate(contentType, content)\<close> hands exactly one request to \<open>fetch\<close>: a
  POST to \<open>/api/moderate\<close> whose form body is the field \<open>content_type\<close> holding the
  content type, followed by exactly one content field, named \<open>text\<close> when the content
  type is \<open>text\<close> and \<open>file\<close> for every other content type. A field holds its value as
  \<open>FormData\<close> stores it: a file as it is, a string with every lone surrogate replaced by
  \<open>U+FFFD\<close>, which leaves a well-formed string as it is.
\<close>

theorem moderate_form_body:
  "snd (moderate fetch ct c) = [moderateRequest ct c] \<and>
   url (moderateRequest ct c) = asc ''/api/moderate'' \<and>
   http_method (moderateRequest ct c) = POST \<and>
   (ct = asc ''text'' \<longrightarrow>
      body (moderateRequest ct c) = [(asc ''content_type'', Text ct), (asc ''text'', formValue c)]) \<and>
   (ct \<noteq> asc ''text'' \<longrightarrow>
      body (moderateRequest ct c)
        = [(asc ''content_type'', Text (toUSVString ct)), (asc ''file'', formValue c)]) \<and>
   formValue (Text s) = Text (toUSVString s) \<and>
   (isWellFormed s \<longrightarrow> formValue (Text s) = Text s) \<and>
   formValue (File f) = File f"
proof -
  have "toUSVString (asc ''text'') = asc ''text''"
    by (simp add: asc_def isLeadSurrogate_def isTrailSurrogate_def)
  then show ?thesis
    by (simp add: moderate_def moderateRequest_def formData_def formValue_def MODERATE_def
        Let_def toUSVString_wellFormed)
qed

theorem moderate_form_body_witness:
  "isWellFormed (asc ''hello'') \<and>
   snd (moderate offline (asc ''text'') (Text (asc ''hello'')))
     = [moderateRequest (asc ''text'') (Text (asc ''hello''))] \<and>
   body (moderateRequest (asc ''text'') (Text (asc ''hello'')))
     = [(asc ''content_type'', Text (asc ''text'')), (asc ''text'', Text (asc ''hello''))] \<and>
   body (moderateRequest (asc ''image'') (File \<lparr>file_name = asc ''cat.png'', file_size = 2048\<rparr>))
     = [(asc ''content_type'', Text (asc ''image'')),
        (asc ''file'', File \<lparr>file_name = asc ''cat.png'', file_size = 2048\<rparr>)]"
proof -
  have w: "isWellFormed (asc ''hello'')"
    by (simp add: asc_def isLeadSurrogate_def isTrailSurrogate_def)
  have i: "toUSVString (asc ''image'') = asc ''image''"
    by (simp add: asc_def isLeadSurrogate_def isTrailSurrogate_def)
  from moderate_form_body [of offline "asc ''text''" "Text (asc ''hello'')" "asc ''hello''"
      "\<lparr>file_name = asc ''cat.png'', file_size = 2048\<rparr>"]
    moderate_form_body [of offline "asc ''image''"
      "File \<lparr>file_name = asc ''cat.png'', file_size = 2048\<rparr>" "asc ''hello''"
      "\<lparr>file_name = asc ''cat.png'', file_size = 2048\<rparr>"] w i
  show ?thesis by simp
qed

section \<open>The view\<close>

text \<open>
  C1. The risk level \<open>displayResults\<close> derives: a violation with confidence at least
  0.8 is DANGER; a violation with confidence in [0.6, 0.8) is WARNING; a violation with
  confidence below 0.6 is WARNING too, not SAFE; no violation is SAFE whatever the
  confidence. When the badge, detail and container elements exist, the badge shows the
  text and carries the class of that level.
\<close>

theorem riskLevel_classification:
  "(violation r \<and> confidence r \<ge> 8 / 10 \<longrightarrow> riskLevel r = DANGER) \<and>
   (violation r \<and> 6 / 10 \<le> confidence r \<and> confidence r < 8 / 10 \<longrightarrow> riskLevel r = WARNING) \<and>
   (violation r \<and> confidence r < 6 / 10 \<longrightarrow> riskLevel r = WARNING \<and> riskLevel r \<noteq> SAFE) \<and>
   (\<not> violation r \<longrightarrow> riskLevel r = SAFE) \<and>
   (\<forall>rb rd rc. risk_badge (elements (ui w)) = Some rb \<and>
       result_details (elements (ui w)) = Some rd \<and>
       result_container (elements (ui w)) = Some rc \<longrightarrow>
       snd (displayResults rr (Some r) mode w) = None \<and>
       textContent (heap (doc (fst (displayResults rr (Some r) mode w))) rb)
         = rl_text (riskLevel r) \<and>
       rl_class (riskLevel r)
         \<in> set (classList (heap (doc (fst (displayResults rr (Some r) mode w))) rb)))"
proof -
  have a: "violation r \<and> confidence r \<ge> 8 / 10 \<longrightarrow> riskLevel r = DANGER"
    by (simp add: riskLevel_def DANGER_def)
  have b: "violation r \<and> 6 / 10 \<le> confidence r \<and> confidence r < 8 / 10 \<longrightarrow> riskLevel r = WARNING"
    by (simp add: riskLevel_def DANGER_def WARNING_def)
  have c: "violation r \<and> confidence r < 6 / 10 \<longrightarrow> riskLevel r = WARNING \<and> riskLevel r \<noteq> SAFE"
    using risk_levels_distinct(2) by (simp add: riskLevel_def DANGER_def WARNING_def)
  have d: "\<not> violation r \<longrightarrow> riskLevel r = SAFE"
    by (simp add: riskLevel_def)
  have e: "snd (displayResults rr (Some r) mode w) = None \<and>
       textContent (heap (doc (fst (displayResults rr (Some r) mode w))) rb)
         = rl_text (riskLevel r) \<and>
       rl_class (riskLevel r)
         \<in> set (classList (heap (doc (fst (displayResults rr (Some r) mode w))) rb))"
    if "risk_badge (elements (ui w)) = Some rb" "result_details (elements (ui w)) = Some rd"
       "result_container (elements (ui w)) = Some rc" for rb rd rc
    using that by (simp add: displayResults_def Let_def modify_def add_class_def)
  from a b c d e show ?thesis by blast
qed

theorem riskLevel_classification_witness:
  "riskLevel (sample_result True (9 / 10)) = DANGER \<and>
   riskLevel (sample_result True (8 / 10)) = DANGER \<and>
   riskLevel (sample_result True (7 / 10)) = WARNING \<and>
   riskLevel (sample_result True (6 / 10)) = WARNING \<and>
   riskLevel (sample_result True (1 / 2)) = WARNING \<and>
   riskLevel (sample_result True (1 / 2)) \<noteq> SAFE \<and>
   riskLevel (sample_result False (9 / 10)) = SAFE \<and>
   textContent (heap (doc (fst (displayResults no_render (Some (sample_result True (9 / 10)))
      (asc ''text'') (demo_world (asc ''hello'') (asc ''text''))))) 5) = rl_text DANGER"
proof -
  let ?w = "demo_world (asc ''hello'') (asc ''text'')"
  have els: "risk_badge (elements (ui ?w)) = Some 5 \<and> result_details (elements (ui ?w)) = Some 6 \<and>
      result_container (elements (ui ?w)) = Some 3"
    by (simp add: demo_defs)
  have a: "riskLevel (sample_result True (9 / 10)) = DANGER"
    using riskLevel_classification [of "sample_result True (9 / 10)" ?w no_render "asc ''text''"]
    by (simp add: sample_result_def)
  have a': "riskLevel (sample_result True (8 / 10)) = DANGER"
    using riskLevel_classification [of "sample_result True (8 / 10)" ?w no_render "asc ''text''"]
    by (simp add: sample_result_def)
  have b: "riskLevel (sample_result True (7 / 10)) = WARNING"
    using riskLevel_classification [of "sample_result True (7 / 10)" ?w no_render "asc ''text''"]
    by (simp add: sample_result_def)
  have b': "riskLevel (sample_result True (6 / 10)) = WARNING"
    using riskLevel_classification [of "sample_result True (6 / 10)" ?w no_render "asc ''text''"]
    by (simp add: sample_result_def)
  have c: "riskLevel (sample_result True (1 / 2)) = WARNING \<and>
           riskLevel (sample_result True (1 / 2)) \<noteq> SAFE"
    using riskLevel_classification [of "sample_result True (1 / 2)" ?w no_render "asc ''text''"]
    by (simp add: sample_result_def risk_levels_distinct)
  have d: "riskLevel (sample_result False (9 / 10)) = SAFE"
    using riskLevel_classification [of "sample_result False (9 / 10)" ?w no_render "asc ''text''"]
    by (simp add: sample_result_def)
  have e: "textContent (heap (doc (fst (displayResults no_render (Some (sample_result True (9 / 10)))
      (asc ''text'') ?w))) 5) = rl_text (riskLevel (sample_result True (9 / 10)))"
    using riskLevel_classification [of "sample_result True (9 / 10)" ?w no_render "asc ''text''"] els
    by blast
  from a a' b b' c d e show ?thesis by (simp add: risk_levels_distinct)
qed

text \<open>
  C9. The consistency tier of an alignment score is fixed by the two thresholds \<open>0.7\<close>
  and \<open>0.4\<close> (the doubles these literals denote): a score above \<open>0.7\<close> is in the high
  tier, a score above \<open>0.4\<close> and at most \<open>0.7\<close> in the medium tier, a score of at most
  \<open>0.4\<close> in the low tier.
\<close>

theorem getConsistencyInfo_tiers:
  "(score > double_0_7 \<longrightarrow>
      ci_class (getConsistencyInfo score) = asc ''consistency-high'' \<and>
      title (getConsistencyInfo score) = [0x9AD8, 0x4E00, 0x81F4, 0x6027]) \<and>
   (double_0_4 < score \<and> score \<le> double_0_7 \<longrightarrow>
      ci_class (getConsistencyInfo score) = asc ''consistency-medium'' \<and>
      title (getConsistencyInfo score) = [0x4E2D, 0x7B49, 0x4E00, 0x81F4, 0x6027]) \<and>
   (score \<le> double_0_4 \<longrightarrow>
      ci_class (getConsistencyInfo score) = asc ''consistency-low'' \<and>
      title (getConsistencyInfo score) = [0x4F4E, 0x4E00, 0x81F4, 0x6027])"
proof -
  have "double_0_4 < double_0_7"
    by (simp add: double_0_4_def double_0_7_def)
  then show ?thesis
    by (auto simp: getConsistencyInfo_def)
qed

theorem getConsistencyInfo_tiers_witness:
  "double_0_7 < 3 / 4 \<and>
   ci_class (getConsistencyInfo (3 / 4)) = asc ''consistency-high'' \<and>
   ci_class (getConsistencyInfo double_0_7) = asc ''consistency-medium'' \<and>
   double_0_4 < 1 / 2 \<and> 1 / 2 \<le> double_0_7 \<and>
   ci_class (getConsistencyInfo (1 / 2)) = asc ''consistency-medium'' \<and>
   ci_class (getConsistencyInfo double_0_4) = asc ''consistency-low'' \<and>
   1 / 4 \<le> double_0_4 \<and>
   ci_class (getConsistencyInfo (1 / 4)) = asc ''consistency-low''"
proof -
  have o: "double_0_4 < double_0_7" "double_0_7 < 3 / 4" "double_0_4 < 1 / 2"
      "1 / 2 \<le> double_0_7" "1 / 4 \<le> double_0_4"
    by (simp_all add: double_0_4_def double_0_7_def)
  from getConsistencyInfo_tiers [of "3 / 4"] getConsistencyInfo_tiers [of double_0_7]
    getConsistencyInfo_tiers [of "1 / 2"] getConsistencyInfo_tiers [of double_0_4]
    getConsistencyInfo_tiers [of "1 / 4"] o
  show ?thesis by simp
qed

section \<open>The controller keeps the inputs of the page\<close>

lemma same_inputs_refl [simp]: "same_inputs d d"
  by (simp add: same_inputs_def)

lemma same_inputs_trans: "same_inputs a b \<Longrightarrow> same_inputs b c \<Longrightarrow> same_inputs a c"
  by (simp add: same_inputs_def)

lemma keeps_add_class [simp]: "keeps_inputs (add_class c)"
  by (simp add: keeps_inputs_def add_class_def)

lemma keeps_remove_class [simp]: "keeps_inputs (remove_class c)"
  by (simp add: keeps_inputs_def remove_class_def)

lemma keeps_fields [simp]:
  "keeps_inputs (\<lambda>n. n\<lparr>disabled := b\<rparr>)"
  "keeps_inputs (\<lambda>n. n\<lparr>style_display := s\<rparr>)"
  "keeps_inputs (\<lambda>n. n\<lparr>textContent := s\<rparr>)"
  "keeps_inputs (\<lambda>n. n\<lparr>innerHTML := s\<rparr>)"
  "keeps_inputs (\<lambda>n. n\<lparr>classList := cs, textContent := s\<rparr>)"
  by (simp_all add: keeps_inputs_def)

lemma same_inputs_modify: "keeps_inputs f \<Longrightarrow> same_inputs d d' \<Longrightarrow> same_inputs d (modify r f d')"
  by (simp add: same_inputs_def keeps_inputs_def modify_def)

lemma same_inputs_when_present:
  "keeps_inputs f \<Longrightarrow> same_inputs d d' \<Longrightarrow> same_inputs d (when_present r f d')"
  by (simp add: when_present_def same_inputs_modify split: option.split)

lemma same_inputs_fold:
  "keeps_inputs f \<Longrightarrow> same_inputs d d' \<Longrightarrow> same_inputs d (fold (\<lambda>r. modify r f) rs d')"
  by (induction rs arbitrary: d') (simp_all add: same_inputs_modify)

lemma same_inputs_getElementById: "same_inputs d d' \<Longrightarrow> getElementById d' i = getElementById d i"
  by (simp add: same_inputs_def getElementById_def)

lemma same_inputs_querySelector:
  "same_inputs d d' \<Longrightarrow> selector_safe m \<Longrightarrow>
   querySelector_data_mode engine d' m = querySelector_data_mode engine d m"
  by (simp add: same_inputs_def querySelector_data_mode_def)

lemma same_inputs_validateInput: "same_inputs d d' \<Longrightarrow> validateInput d' m = validateInput d m"
  by (simp add: validateInput_def same_inputs_getElementById split: option.split)
     (simp add: same_inputs_def)

lemma same_inputs_prepareContent: "same_inputs d d' \<Longrightarrow> prepareContent d' m = prepareContent d m"
  by (simp add: prepareContent_def same_inputs_getElementById split: option.split)
     (simp add: same_inputs_def)

lemmas same_inputs_intros = same_inputs_modify same_inputs_when_present same_inputs_fold

lemma setProcessingState_same_inputs:
  "same_inputs d (doc w) \<Longrightarrow> same_inputs d (doc (fst (setProcessingState p w)))"
  by (simp add: setProcessingState_def Let_def same_inputs_intros split: option.split)

lemma updateLoadingProgress_same_inputs:
  "same_inputs d (doc w) \<Longrightarrow> same_inputs d (doc (fst (updateLoadingProgress m w)))"
  by (simp add: updateLoadingProgress_def Let_def same_inputs_intros split: option.split)

lemma setProcessingState_elements [simp]:
  "elements (ui (fst (setProcessingState p w))) = elements (ui w)"
  by (simp add: setProcessingState_def Let_def split: option.split)

lemma updateLoadingProgress_ui [simp]:
  "ui (fst (updateLoadingProgress m w)) = ui w"
  by (simp add: updateLoadingProgress_def Let_def split: option.split)

lemma innerHTML_modify:
  "(\<And>n. innerHTML (f n) = innerHTML n) \<Longrightarrow>
   innerHTML (heap (modify r f d) x) = innerHTML (heap d x)"
  by (simp add: modify_def)

lemma innerHTML_when_present:
  "(\<And>n. innerHTML (f n) = innerHTML n) \<Longrightarrow>
   innerHTML (heap (when_present r f d) x) = innerHTML (heap d x)"
  by (simp add: when_present_def innerHTML_modify split: option.split)

lemma setProcessingState_innerHTML [simp]:
  "innerHTML (heap (doc (fst (setProcessingState p w))) r) = innerHTML (heap (doc w) r)"
  by (simp add: setProcessingState_def Let_def innerHTML_modify innerHTML_when_present
      remove_class_def add_class_def split: option.split)

section \<open>The submit flow\<close>

lemma setProcessingState_ok:
  "moderate_btn (elements (ui w)) = Some b \<Longrightarrow> loading (elements (ui w)) = Some l \<Longrightarrow>
   snd (setProcessingState p w) = None"
  by (simp add: setProcessingState_def Let_def)

lemma setProcessingState_ok_iff:
  "snd (setProcessingState p w) = None \<longleftrightarrow>
   (\<exists>b l. moderate_btn (elements (ui w)) = Some b \<and> loading (elements (ui w)) = Some l)"
  by (auto simp: setProcessingState_def Let_def split: option.split)

lemma setProcessingState_restored:
  "moderate_btn (elements (ui w)) = Some b \<Longrightarrow> loading (elements (ui w)) = Some l \<Longrightarrow>
   \<not> isProcessing (ui (fst (setProcessingState False w))) \<and>
   \<not> disabled (heap (doc (fst (setProcessingState False w))) b) \<and>
   asc ''show'' \<notin> set (classList (heap (doc (fst (setProcessingState False w))) l))"
  by (simp add: setProcessingState_def Let_def when_present_def modify_def remove_class_def
      split: option.split)

lemma updateLoadingProgress_ok_iff:
  "snd (updateLoadingProgress m w) = None \<longleftrightarrow>
   getElementById (doc w) (asc ''loading-detail'') = None \<or> LOADING_STEPS m \<noteq> None \<or>
   inherited_member m"
  by (auto simp: updateLoadingProgress_def split: option.split)

text \<open>
  A run reaches its \<open>try\<close> block when the two calls before it return: the moderate
  button and the loading element exist, and the mode has captions or names an inherited
  member, or the page has no loading-detail element.
\<close>

lemma reaches_try_iff:
  "snd (setProcessingState True w) = None \<and>
   snd (updateLoadingProgress m (fst (setProcessingState True w))) = None \<longleftrightarrow>
   (\<exists>b l. moderate_btn (elements (ui w)) = Some b \<and> loading (elements (ui w)) = Some l) \<and>
   (getElementById (doc w) (asc ''loading-detail'') = None \<or> LOADING_STEPS m \<noteq> None \<or>
    inherited_member m)"
proof -
  have "getElementById (doc (fst (setProcessingState True w))) (asc ''loading-detail'')
      = getElementById (doc w) (asc ''loading-detail'')"
    by (rule same_inputs_getElementById) (rule setProcessingState_same_inputs, rule same_inputs_refl)
  then show ?thesis
    by (simp add: setProcessingState_ok_iff updateLoadingProgress_ok_iff)
qed

lemma showError_ui [simp]: "ui (showError m w) = ui w"
  by (simp add: showError_def Let_def)

lemma showError_innerHTML:
  "result_details (elements (ui w)) = Some rd \<Longrightarrow>
   innerHTML (heap (doc (showError m w)) rd) = errorPanel m"
  by (simp add: showError_def Let_def when_present_def modify_def add_class_def
      split: option.split)

lemma displayResults_ui [simp]: "ui (fst (displayResults rr res m w)) = ui w"
  by (simp add: displayResults_def Let_def split: option.split)

lemma try_block_ui [simp]: "ui (fst (fst (try_block rr fetch m w))) = ui w"
  by (simp add: try_block_def moderate_def Let_def split: sum.split prod.split)

lemma LOADING_STEPS_video [simp]: "LOADING_STEPS (asc ''video'') \<noteq> None"
  by (simp add: LOADING_STEPS_def)

lemma entered_same_inputs: "same_inputs (doc w) (doc (entered w))"
  by (simp add: entered_def updateLoadingProgress_same_inputs setProcessingState_same_inputs)

lemma entered_elements [simp]: "elements (ui (entered w)) = elements (ui w)"
  by (simp add: entered_def)

lemma startModeration_invalid:
  "\<not> validateInput (doc w) (currentMode (ui w)) \<Longrightarrow>
   startModeration rr fetch w = \<lparr>final = w, events = [Alert ALERT_MESSAGE], thrown = None\<rparr>"
  by (simp add: startModeration_def)

lemma startModeration_entered:
  assumes "validateInput (doc w) (currentMode (ui w))"
    and "moderate_btn (elements (ui w)) = Some b"
    and "loading (elements (ui w)) = Some l"
    and "getElementById (doc w) (asc ''loading-detail'') = None \<or>
         LOADING_STEPS (currentMode (ui w)) \<noteq> None \<or> inherited_member (currentMode (ui w))"
  shows "startModeration rr fetch w =
         (case try_block rr fetch (currentMode (ui w)) (entered w) of
            ((w', caught), evs) \<Rightarrow>
              \<lparr>final = fst (setProcessingState False
                   (case caught of None \<Rightarrow> w' | Some err \<Rightarrow> showError (err_message err) w')),
               events = evs, thrown = None\<rparr>)"
proof -
  obtain w1 where s1: "setProcessingState True w = (w1, None)"
    using setProcessingState_ok [OF assms(2,3), of True] by (cases "setProcessingState True w") simp
  have d1: "same_inputs (doc w) (doc w1)"
    using setProcessingState_same_inputs [of "doc w" w True] s1 by simp
  have "getElementById (doc w1) (asc ''loading-detail'') = None \<or>
        LOADING_STEPS (currentMode (ui w)) \<noteq> None \<or> inherited_member (currentMode (ui w))"
    using assms(4) same_inputs_getElementById [OF d1] by simp
  then obtain w2 where s2: "updateLoadingProgress (currentMode (ui w)) w1 = (w2, None)"
    using updateLoadingProgress_ok_iff [of "currentMode (ui w)" w1]
    by (cases "updateLoadingProgress (currentMode (ui w)) w1") simp
  have e: "entered w = w2" by (simp add: entered_def s1 s2)
  obtain w3 caught evs where t: "try_block rr fetch (currentMode (ui w)) w2 = ((w3, caught), evs)"
    by (metis prod.exhaust)
  have u3: "elements (ui w3) = elements (ui w)"
    using try_block_ui [of rr fetch "currentMode (ui w)" w2] t entered_elements [of w] e by simp
  define w4 where "w4 = (case caught of None \<Rightarrow> w3 | Some err \<Rightarrow> showError (err_message err) w3)"
  have u4: "elements (ui w4) = elements (ui w)"
    by (simp add: w4_def u3 split: option.split)
  have "snd (setProcessingState False w4) = None"
    using setProcessingState_ok [of w4 b l False] assms(2,3) u4 by simp
  then obtain w5 where s5: "setProcessingState False w4 = (w5, None)"
    by (cases "setProcessingState False w4") simp
  show ?thesis
    using assms(1) s1 s2 t s5 by (simp add: startModeration_def e w4_def [symmetric])
qed

lemma try_block_oversized:
  assumes "same_inputs (doc w) (doc w')"
    and "getElementById (doc w) (asc ''video-file'') = Some fi"
    and "files (heap (doc w) fi) = f # fs"
    and "file_size f > MAX_SIZE"
  shows "prepareContent (doc w') (asc ''video'') = Inl (Error (videoTooLarge (file_size f)))"
    and "try_block rr fetch (asc ''video'') w' = ((w', Some (Error (videoTooLarge (file_size f)))), [])"
proof -
  have "prepareContent (doc w) (asc ''video'') = Inl (Error (videoTooLarge (file_size f)))"
    using assms(2-4) by (simp add: prepareContent_def)
  then show p: "prepareContent (doc w') (asc ''video'') = Inl (Error (videoTooLarge (file_size f)))"
    using same_inputs_prepareContent [OF assms(1)] by simp
  show "try_block rr fetch (asc ''video'') w' = ((w', Some (Error (videoTooLarge (file_size f)))), [])"
    by (simp add: try_block_def p)
qed

text \<open>
  C2. In video mode with a chosen file of more than 50 * 1024 * 1024 bytes,
  \<open>prepareContent\<close> throws the oversized-video error, and a run of \<open>startModeration\<close>
  hands no request to \<open>fetch\<close> (it has no event at all: \<open>moderate\<close> is never called).
  When the moderate button and the loading element exist, the run resolves and the error
  panel with that message is what the detail element shows.
\<close>

theorem oversized_video_rejected:
  assumes "currentMode (ui w) = asc ''video''"
    and "getElementById (doc w) (asc ''video-file'') = Some fi"
    and "files (heap (doc w) fi) = f # fs"
    and "file_size f > 50 * 1024 * 1024"
  shows "prepareContent (doc w) (asc ''video'') = Inl (Error (videoTooLarge (file_size f))) \<and>
         events (startModeration rr fetch w) = [] \<and>
         (\<forall>b l. moderate_btn (elements (ui w)) = Some b \<and> loading (elements (ui w)) = Some l \<longrightarrow>
            thrown (startModeration rr fetch w) = None \<and>
            (\<forall>rd. result_details (elements (ui w)) = Some rd \<longrightarrow>
               innerHTML (heap (doc (final (startModeration rr fetch w))) rd)
                 = errorPanel (videoTooLarge (file_size f))))"
proof -
  let ?m = "videoTooLarge (file_size f)"
  have big: "file_size f > MAX_SIZE" using assms(4) by (simp add: MAX_SIZE_def)
  have valid: "validateInput (doc w) (currentMode (ui w))"
    using assms(1-3) by (simp add: validateInput_def)
  have p: "prepareContent (doc w) (asc ''video'') = Inl (Error ?m)"
    using try_block_oversized(1) [OF same_inputs_refl assms(2,3) big] .
  have ev: "events (startModeration rr fetch w) = []"
  proof (cases "setProcessingState True w")
    case s1: (Pair w1 x1)
    show ?thesis
    proof (cases x1)
      case (Some e)
      then show ?thesis using valid s1 by (simp add: startModeration_def)
    next
      case None
      have d1: "same_inputs (doc w) (doc w1)"
        using setProcessingState_same_inputs [of "doc w" w True] s1 by simp
      show ?thesis
      proof (cases "updateLoadingProgress (asc ''video'') w1")
        case s2: (Pair w2 x2)
        have d2: "same_inputs (doc w) (doc w2)"
          using updateLoadingProgress_same_inputs [OF d1, of "asc ''video''"] s2 by simp
        show ?thesis
          using valid s1 None s2 assms(1) try_block_oversized(2) [OF d2 assms(2,3) big]
          by (cases x2; cases "setProcessingState False (showError ?m w2)")
             (simp_all add: startModeration_def Error_def)
      qed
    qed
  qed
  have shown: "thrown (startModeration rr fetch w) = None \<and>
      (\<forall>rd. result_details (elements (ui w)) = Some rd \<longrightarrow>
         innerHTML (heap (doc (final (startModeration rr fetch w))) rd) = errorPanel ?m)"
    if bl: "moderate_btn (elements (ui w)) = Some b" "loading (elements (ui w)) = Some l" for b l
  proof -
    have st: "getElementById (doc w) (asc ''loading-detail'') = None \<or>
              LOADING_STEPS (currentMode (ui w)) \<noteq> None \<or>
              inherited_member (currentMode (ui w))"
      using assms(1) by simp
    have t: "try_block rr fetch (currentMode (ui w)) (entered w) = ((entered w, Some (Error ?m)), [])"
      using try_block_oversized(2) [OF entered_same_inputs assms(2,3) big] assms(1) by simp
    have run: "startModeration rr fetch w =
        \<lparr>final = fst (setProcessingState False (showError ?m (entered w))), events = [],
         thrown = None\<rparr>"
      using startModeration_entered [OF valid bl st, of rr fetch] t by (simp add: Error_def)
    show ?thesis
      by (simp add: run showError_innerHTML)
  qed
  from p ev shown show ?thesis by blast
qed

theorem oversized_video_rejected_witness:
  "file_size \<lparr>file_name = asc ''clip.mp4'', file_size = 60000000\<rparr> > 50 * 1024 * 1024 \<and>
   toFixed1_MB 60000000 = asc ''57.2'' \<and>
   prepareContent (doc (demo_world [] (asc ''video''))) (asc ''video'')
     = Inl (Error (videoTooLarge 60000000)) \<and>
   events (startModeration no_render offline (demo_world [] (asc ''video''))) = [] \<and>
   thrown (startModeration no_render offline (demo_world [] (asc ''video''))) = None \<and>
   innerHTML (heap (doc (final (startModeration no_render offline (demo_world [] (asc ''video''))))) 6)
     = errorPanel (videoTooLarge 60000000)"
proof -
  let ?w = "demo_world [] (asc ''video'')"
  let ?f = "\<lparr>file_name = asc ''clip.mp4'', file_size = 60000000\<rparr>"
  have m: "currentMode (ui ?w) = asc ''video''"
    by (simp add: demo_world_def)
  have g: "getElementById (doc ?w) (asc ''video-file'') = Some 8"
    by (simp add: demo_defs)
  have f: "files (heap (doc ?w) 8) = ?f # []"
    by (simp add: demo_defs)
  have s: "file_size ?f > 50 * 1024 * 1024"
    by simp
  have els: "moderate_btn (elements (ui ?w)) = Some 0 \<and> loading (elements (ui ?w)) = Some 2 \<and>
      result_details (elements (ui ?w)) = Some 6"
    by (simp add: demo_defs)
  have t: "toFixed1_MB 60000000 = asc ''57.2''"
    by (simp add: toFixed1_MB_def digits.simps asc_def)
  from oversized_video_rejected [OF m g f s, of no_render offline] els s t
  show ?thesis by simp
qed

text \<open>
  C4. When the mode is \<open>text\<close> and the text input is missing or its trimmed value is
  empty, or the mode is a file mode and its file input is missing or has no chosen file,
  \<open>startModeration\<close> shows the alert and returns: the alert is its only event (no request
  is sent), and the document and the controller are as they were (no loading state).
\<close>

theorem startModeration_empty_input:
  assumes "(currentMode (ui w) = asc ''text'' \<and>
            (\<forall>t. getElementById (doc w) (asc ''text-input'') = Some t \<longrightarrow>
                 trim (input_value (heap (doc w) t)) = [])) \<or>
           (currentMode (ui w) \<noteq> asc ''text'' \<and>
            (\<forall>fi. getElementById (doc w) (currentMode (ui w) @ asc ''-file'') = Some fi \<longrightarrow>
                 files (heap (doc w) fi) = []))"
  shows "startModeration rr fetch w = \<lparr>final = w, events = [Alert ALERT_MESSAGE], thrown = None\<rparr>"
proof -
  have "\<not> validateInput (doc w) (currentMode (ui w))"
    using assms by (auto simp: validateInput_def split: option.split)
  then show ?thesis by (rule startModeration_invalid)
qed

theorem startModeration_empty_input_witness:
  "trim [0x20, 0x3000, 0xA] = [] \<and>
   startModeration no_render offline (demo_world [0x20, 0x3000, 0xA] (asc ''text''))
     = \<lparr>final = demo_world [0x20, 0x3000, 0xA] (asc ''text''), events = [Alert ALERT_MESSAGE],
        thrown = None\<rparr> \<and>
   files (heap (doc (demo_world (asc ''hello'') (asc ''image''))) 13) = [] \<and>
   startModeration no_render offline (demo_world (asc ''hello'') (asc ''image''))
     = \<lparr>final = demo_world (asc ''hello'') (asc ''image''), events = [Alert ALERT_MESSAGE],
        thrown = None\<rparr>"
proof -
  let ?w = "demo_world [0x20, 0x3000, 0xA] (asc ''text'')"
  let ?v = "demo_world (asc ''hello'') (asc ''image'')"
  have t: "trim [0x20, 0x3000, 0xA] = []"
    by (simp add: trim_def isWhiteSpace_def)
  have a: "currentMode (ui ?w) = asc ''text'' \<and>
      (\<forall>t. getElementById (doc ?w) (asc ''text-input'') = Some t \<longrightarrow>
           trim (input_value (heap (doc ?w) t)) = [])"
    using t by (simp add: demo_defs)
  have b: "currentMode (ui ?v) \<noteq> asc ''text'' \<and>
      (\<forall>fi. getElementById (doc ?v) (currentMode (ui ?v) @ asc ''-file'') = Some fi \<longrightarrow>
           files (heap (doc ?v) fi) = [])"
    by (simp add: demo_defs)
  have c: "files (heap (doc ?v) 13) = []"
    by (simp add: demo_defs)
  from startModeration_empty_input [of ?w no_render offline]
    startModeration_empty_input [of ?v no_render offline] a b c t
  show ?thesis by blast
qed

text \<open>
  C6. A run of \<open>startModeration\<close> whose input passes validation and that reaches its
  \<open>try\<close> block (the two calls before it return) ends restored, whatever happens in the
  block: whether \<open>prepareContent\<close> throws, \<open>moderate\<close> rejects or \<open>moderate\<close> resolves
  (and the display of the result returns or throws), \<open>setProcessingState(false)\<close> is the
  last thing run, the promise resolves, \<open>isProcessing\<close> is false, the moderate button is
  enabled and the loading indicator is hidden.
\<close>

theorem startModeration_restores_state:
  assumes "validateInput (doc w) (currentMode (ui w))"
    and "snd (setProcessingState True w) = None"
    and "snd (updateLoadingProgress (currentMode (ui w)) (fst (setProcessingState True w))) = None"
  shows "thrown (startModeration rr fetch w) = None \<and>
         (\<exists>w'. final (startModeration rr fetch w) = fst (setProcessingState False w')) \<and>
         \<not> isProcessing (ui (final (startModeration rr fetch w))) \<and>
         (\<exists>b. moderate_btn (elements (ui w)) = Some b \<and>
              \<not> disabled (heap (doc (final (startModeration rr fetch w))) b)) \<and>
         (\<exists>l. loading (elements (ui w)) = Some l \<and>
              asc ''show'' \<notin> set (classList (heap (doc (final (startModeration rr fetch w))) l)))"
proof -
  from assms(2,3) obtain b l where
    bl: "moderate_btn (elements (ui w)) = Some b" "loading (elements (ui w)) = Some l" and
    st: "getElementById (doc w) (asc ''loading-detail'') = None \<or>
         LOADING_STEPS (currentMode (ui w)) \<noteq> None \<or> inherited_member (currentMode (ui w))"
    using reaches_try_iff [of w "currentMode (ui w)"] by blast
  obtain w' caught evs where
    t: "try_block rr fetch (currentMode (ui w)) (entered w) = ((w', caught), evs)"
    by (metis prod.exhaust)
  define w4 where "w4 = (case caught of None \<Rightarrow> w' | Some err \<Rightarrow> showError (err_message err) w')"
  have u: "elements (ui w') = elements (ui w)"
    using try_block_ui [of rr fetch "currentMode (ui w)" "entered w"] t by simp
  have u4: "elements (ui w4) = elements (ui w)"
    by (simp add: w4_def u split: option.split)
  have run: "startModeration rr fetch w =
      \<lparr>final = fst (setProcessingState False w4), events = evs, thrown = None\<rparr>"
    using startModeration_entered [OF assms(1) bl st, of rr fetch] t by (simp add: w4_def)
  have r: "\<not> isProcessing (ui (fst (setProcessingState False w4))) \<and>
      \<not> disabled (heap (doc (fst (setProcessingState False w4))) b) \<and>
      asc ''show'' \<notin> set (classList (heap (doc (fst (setProcessingState False w4))) l))"
    using setProcessingState_restored [of w4 b l] bl u4 by simp
  show ?thesis
    using r bl by (auto simp: run)
qed

theorem startModeration_restores_state_witness:
  "validateInput (doc (demo_world (asc ''hello'') (asc ''text''))) (asc ''text'') \<and>
   thrown (startModeration no_render offline (demo_world (asc ''hello'') (asc ''text''))) = None \<and>
   \<not> isProcessing (ui (final
       (startModeration no_render offline (demo_world (asc ''hello'') (asc ''text''))))) \<and>
   \<not> disabled (heap (doc (final
       (startModeration no_render offline (demo_world (asc ''hello'') (asc ''text''))))) 0) \<and>
   \<not> disabled (heap (doc (final
       (startModeration no_render
          (replying 200 \<lparr>success = True, result = Some (sample_result True (9 / 10)), error = None\<rparr>)
          (demo_world (asc ''hello'') (asc ''text''))))) 0) \<and>
   \<not> disabled (heap (doc (final
       (startModeration no_render offline (demo_world [] (asc ''video''))))) 0)"
proof -
  let ?w = "demo_world (asc ''hello'') (asc ''text'')"
  let ?v = "demo_world [] (asc ''video'')"
  have v: "validateInput (doc ?w) (asc ''text'')"
    by (simp add: demo_defs validateInput_def trim_def isWhiteSpace_def asc_def)
  have vw: "validateInput (doc ?w) (currentMode (ui ?w))"
    using v by (simp add: demo_world_def)
  have vv: "validateInput (doc ?v) (currentMode (ui ?v))"
    by (simp add: demo_defs validateInput_def)
  have b: "moderate_btn (elements (ui ?w)) = Some 0" "moderate_btn (elements (ui ?v)) = Some 0"
    by (simp_all add: demo_defs)
  have l: "loading (elements (ui ?w)) = Some 2" "loading (elements (ui ?v)) = Some 2"
    by (simp_all add: demo_defs)
  have s: "LOADING_STEPS (currentMode (ui ?w)) \<noteq> None" "LOADING_STEPS (currentMode (ui ?v)) \<noteq> None"
    by (simp_all add: demo_world_def LOADING_STEPS_def)
  have rw: "snd (setProcessingState True ?w) = None"
      "snd (updateLoadingProgress (currentMode (ui ?w)) (fst (setProcessingState True ?w))) = None"
    using reaches_try_iff [of ?w "currentMode (ui ?w)"] b(1) l(1) s(1) by simp_all
  have rv: "snd (setProcessingState True ?v) = None"
      "snd (updateLoadingProgress (currentMode (ui ?v)) (fst (setProcessingState True ?v))) = None"
    using reaches_try_iff [of ?v "currentMode (ui ?v)"] b(2) l(2) s(2) by simp_all
  from startModeration_restores_state [OF vw rw, of no_render offline]
    startModeration_restores_state [OF vw rw, of no_render
      "replying 200 \<lparr>success = True, result = Some (sample_result True (9 / 10)), error = None\<rparr>"]
    startModeration_restores_state [OF vv rv, of no_render offline] v b
  show ?thesis by simp
qed

lemma switchMode_currentMode: "currentMode (ui (fst (switchMode engine mode w))) = mode"
  by (simp add: switchMode_def resetResults_def Let_def split: option.split sum.split)

lemma resetResults_hidden:
  "(\<forall>rc. result_container (elements (ui w)) = Some rc \<longrightarrow>
      asc ''show'' \<notin> set (classList (heap (doc (resetResults w)) rc))) \<and>
   (\<forall>p. placeholder (elements (ui w)) = Some p \<longrightarrow>
      style_display (heap (doc (resetResults w)) p) = asc ''block'')"
  by (simp add: resetResults_def Let_def when_present_def modify_def remove_class_def
      split: option.split)

text \<open>
  Where the tab and the panel of the mode exist, \<open>switchMode\<close> does reset the result
  view: the call completes, the result container (if any) is hidden and the placeholder
  (if any) is displayed.
\<close>

lemma switchMode_resets_results:
  assumes "selector_safe mode"
    and "querySelector_data_mode engine (doc w) mode = Inr (Some tab)"
    and "getElementById (doc w) (mode @ asc ''-panel'') = Some panel"
  shows "snd (switchMode engine mode w) = None \<and>
         currentMode (ui (fst (switchMode engine mode w))) = mode \<and>
         (\<forall>rc. result_container (elements (ui w)) = Some rc \<longrightarrow>
            asc ''show'' \<notin> set (classList (heap (doc (fst (switchMode engine mode w))) rc))) \<and>
         (\<forall>p. placeholder (elements (ui w)) = Some p \<longrightarrow>
            style_display (heap (doc (fst (switchMode engine mode w))) p) = asc ''block'')"
proof -
  let ?els = "elements (ui w)"
  define d1 where "d1 = fold (\<lambda>p. modify p (remove_class (asc ''active''))) (panels ?els)
      (fold (\<lambda>t. modify t (remove_class (asc ''active''))) (modeTabs ?els) (doc w))"
  have s1: "same_inputs (doc w) d1"
    unfolding d1_def by (intro same_inputs_fold keeps_remove_class same_inputs_refl)
  have q: "querySelector_data_mode engine d1 mode = Inr (Some tab)"
    using same_inputs_querySelector [OF s1 assms(1)] assms(2) by simp
  define d2 where "d2 = modify tab (add_class (asc ''active'')) d1"
  have s2: "same_inputs (doc w) d2"
    unfolding d2_def by (intro same_inputs_modify keeps_add_class s1)
  have g: "getElementById d2 (mode @ asc ''-panel'') = Some panel"
    using same_inputs_getElementById [OF s2] assms(3) by simp
  define w3 where "w3 = w\<lparr>ui := (ui w)\<lparr>currentMode := mode\<rparr>,
      doc := modify panel (add_class (asc ''active'')) d2\<rparr>"
  have sw: "switchMode engine mode w = (resetResults w3, None)"
    using q g by (simp add: switchMode_def Let_def d1_def [symmetric] d2_def [symmetric] w3_def)
  have e3: "elements (ui w3) = ?els" by (simp add: w3_def)
  show ?thesis
    using resetResults_hidden [of w3] switchMode_currentMode [of engine mode w] by (simp add: sw e3)
qed

text \<open>
  C10 fails on the code. A click that lands on an element inside a tab that has no
  \<open>data-mode\<close> attribute of its own makes the listener call \<open>switchMode(undefined)\<close>:
  \<open>currentMode\<close> is set, the tabs and panels lose \<open>active\<close>, and the lookup of the tab
  finds nothing, so the call throws a \<open>TypeError\<close> before \<open>resetResults\<close>. The result of
  the earlier submission stays on display: the result container still has \<open>show\<close> and
  the placeholder is still hidden. The same holds for every call with a mode that has no
  tab on the page.
\<close>

theorem modeTab_click_leaves_result:
  "data_mode (heap (doc (demo_world [] (asc ''text''))) 20) = None \<and>
   result_container (elements (ui (demo_world [] (asc ''text'')))) = Some 3 \<and>
   placeholder (elements (ui (demo_world [] (asc ''text'')))) = Some 4 \<and>
   asc ''show'' \<in> set (classList (heap (doc (demo_world [] (asc ''text''))) 3)) \<and>
   snd (modeTab_click strict_engine 20 (demo_world [] (asc ''text'')))
     = Some (TypeError (asc ''querySelector'')) \<and>
   currentMode (ui (fst (modeTab_click strict_engine 20 (demo_world [] (asc ''text'')))))
     = asc ''undefined'' \<and>
   asc ''show'' \<in> set (classList
      (heap (doc (fst (modeTab_click strict_engine 20 (demo_world [] (asc ''text''))))) 3)) \<and>
   style_display (heap (doc (fst (modeTab_click strict_engine 20 (demo_world [] (asc ''text''))))) 4)
     = asc ''none''"
proof -
  have safe: "selector_safe (asc ''undefined'')"
    by (simp add: selector_safe_def asc_def isLeadSurrogate_def isTrailSurrogate_def)
  show ?thesis
    by (simp add: demo_defs modeTab_click_def switchMode_def safe modify_def remove_class_def
        Let_def)
qed

end
